theory Spec2Isabelle
  imports Complex_Main "HOL-Library.Code_Target_Numeral"
begin

section \<open>Data model: the Supabase tables used by the backend\<close>

text \<open>
  The backend is a set of Express handlers over five Postgres tables and one storage
  bucket, all reached through the Supabase client. Rows are records whose fields are the
  columns the handlers read or write; a nullable column is an \<open>option\<close> (\<open>None\<close> is SQL
  NULL, which JavaScript sees as \<open>null\<close>). UUIDs and ISO timestamps are opaque to the
  handlers: a UUID is a string, a timestamp is a number of milliseconds. The tables
  implement the operations the handlers call (filter, insert, update, count, range); the
  row-level security policies and triggers of \<open>schema.sql\<close> are not part of the model.
\<close>

type_synonym uuid = string
type_synonym timestamp = nat

record personnel =
  mp_id :: uuid
  mp_email :: string
  mp_password_hash :: string
  mp_first_name :: string
  mp_last_name :: string
  mp_role :: string
  mp_license_number :: "string option"
  mp_is_active :: "bool option"
  mp_created_at :: timestamp
  mp_last_login :: "timestamp option"

record patient =
  pt_id :: uuid
  pt_first_name :: string
  pt_last_name :: string
  pt_date_of_birth :: string
  pt_gender :: string
  pt_phone_number :: "string option"
  pt_email :: "string option"
  pt_address :: "string option"
  pt_medical_history :: "string option"
  pt_is_deleted :: "bool option"
  pt_created_by :: uuid
  pt_created_at :: timestamp
  pt_updated_at :: "timestamp option"
  pt_updated_by :: "uuid option"
  pt_deleted_at :: "timestamp option"
  pt_deleted_by :: "uuid option"

record symptom =
  sy_id :: uuid
  sy_patient_id :: uuid
  sy_name :: string
  sy_severity :: string
  sy_duration :: "string option"
  sy_notes :: "string option"
  sy_recorded_by :: uuid
  sy_recorded_at :: timestamp
  sy_updated_at :: "timestamp option"
  sy_updated_by :: "uuid option"

record symptom_session =
  ss_id :: uuid
  ss_patient_id :: uuid
  ss_notes :: "string option"
  ss_recorded_by :: uuid
  ss_recorded_at :: timestamp

record xray_image =
  xr_id :: uuid
  xr_patient_id :: uuid
  xr_file_name :: string
  xr_file_path :: string
  xr_file_size :: nat
  xr_mime_type :: string
  xr_image_type :: string
  xr_body_part :: string
  xr_notes :: "string option"
  xr_public_url :: string
  xr_uploaded_by :: uuid
  xr_uploaded_at :: timestamp
  xr_updated_at :: "timestamp option"
  xr_updated_by :: "uuid option"

text \<open>An object of the storage bucket: its bytes are opaque, its upload options are kept.\<close>

record blob =
  bl_size :: nat
  bl_contentType :: string
  bl_originalName :: string
  bl_uploadedBy :: uuid
  bl_patientId :: uuid
  bl_imageType :: string
  bl_bodyPart :: string

record db =
  medical_personnel :: "personnel list"
  patients :: "patient list"
  symptoms :: "symptom list"
  symptom_sessions :: "symptom_session list"
  xray_images :: "xray_image list"
  xray_bucket :: "string \<rightharpoonup> blob"

text \<open>
  Every Supabase call returns \<open>{data, error}\<close>; the handlers branch on \<open>error\<close>. Whether a
  call is answered or returns an error is an input of the model: one name per call site,
  and a predicate saying which of them fail.
\<close>

datatype call =
    AuthLookup | OptionalLookup
  | SignupLookup | SignupInsert | SigninLookup | SigninUpdate
  | PatientDupLookup | PatientInsert | PatientListQuery | PatientGet | PatientUpdate | PatientDelete
  | PatientStatsCount | PatientStatsGender | PatientStatsRecent
  | XrayPatientLookup | XrayStorageUpload | XrayInsert | XrayStorageRemove
  | XrayFetch | XrayUpdate
  | SymptomPatientLookup | SymptomInsert | SessionInsert

type_synonym faults = "call \<Rightarrow> bool"

definition no_faults :: faults where
  "no_faults = (\<lambda>c. False)"

text \<open>
  \<open>.single()\<close>: the row when the query matches exactly one, otherwise \<open>data = null\<close> with
  an error (no row, or several).
\<close>

fun single :: "'a list \<Rightarrow> 'a option" where
  "single [r] = Some r"
| "single rs = None"

section \<open>JavaScript numbers\<close>

text \<open>
  A JavaScript number is an IEEE 754 double. The handlers compute with integers only
  (page numbers, limits, offsets, counts, byte sizes), so a number is modelled as an
  integer-valued double, one of the two infinities, or \<open>NaN\<close>. \<open>Num n\<close> is the double whose
  value is the integer \<open>n\<close>; every integer of magnitude up to \<open>2^53\<close> is one, beyond that
  only those with at most 53 significant bits. The sign of zero is not kept: it shows only
  in a division by zero, and the one division of the handlers is by a limit that
  \<open>||\<close> has replaced when it was zero.
\<close>

datatype number = Num int | Infinity | NegInfinity | NaN

text \<open>The number of binary digits of a natural number.\<close>

fun bit_length :: "nat \<Rightarrow> nat" where
  "bit_length n = (if n = 0 then 0 else Suc (bit_length (n div 2)))"

declare bit_length.simps [simp del]

text \<open>
  The double nearest to an integer: round to 53 significant bits, ties to the even
  mantissa; a result of \<open>2^1024\<close> or more is an infinity.
\<close>

definition round_double :: "int \<Rightarrow> number" where
  "round_double n =
     (if \<bar>n\<bar> < 2 ^ 53 then Num n
      else (let e = bit_length (nat \<bar>n\<bar>) - 53;
                q = \<bar>n\<bar> div 2 ^ e;
                r = \<bar>n\<bar> mod 2 ^ e;
                m = (if 2 ^ e < 2 * r \<or> (2 * r = 2 ^ e \<and> odd q) then q + 1 else q)
            in if 2 ^ 1024 \<le> m * 2 ^ e
               then (if n < 0 then NegInfinity else Infinity)
               else Num (sgn n * (m * 2 ^ e))))"

text \<open>\<open>-x\<close>, \<open>x + y\<close>, \<open>x - y\<close>, \<open>x * y\<close> and \<open>x < y\<close>: the exact result, rounded.\<close>

fun negative :: "number \<Rightarrow> bool" where
  "negative (Num a) = (a < 0)"
| "negative NegInfinity = True"
| "negative x = False"





fun js_less :: "number \<Rightarrow> number \<Rightarrow> bool" where
  "js_less (Num a) (Num b) = (a < b)"
| "js_less NaN y = False"
| "js_less x NaN = False"
| "js_less x NegInfinity = False"
| "js_less NegInfinity y = True"
| "js_less Infinity y = False"
| "js_less x Infinity = True"

text \<open>\<open>n || dflt\<close> on a number: \<open>NaN\<close> and \<open>0\<close> are falsy.\<close>

definition or_default :: "number \<Rightarrow> number \<Rightarrow> number" where
  "or_default n dflt = (if n = NaN \<or> n = Num 0 then dflt else n)"





section \<open>Responses\<close>

text \<open>
  HTTP responses: a status code and a JSON body. A body holds the values handed to
  \<open>res.json\<close>; a number that is not finite is kept as it is (serialisation writes
  \<open>null\<close> for it).
\<close>

record user_view =
  uv_id :: uuid
  uv_email :: string
  uv_firstName :: string
  uv_lastName :: string
  uv_role :: string
  uv_licenseNumber :: "string option"
  uv_createdAt :: "timestamp option"

record patient_view =
  pv_id :: uuid
  pv_firstName :: string
  pv_lastName :: string
  pv_dateOfBirth :: string
  pv_gender :: string
  pv_phoneNumber :: "string option"
  pv_email :: "string option"
  pv_address :: "string option"
  pv_medicalHistory :: "string option"
  pv_createdAt :: "timestamp option"
  pv_createdBy :: "uuid option"
  pv_updatedAt :: "timestamp option"
  pv_updatedBy :: "uuid option"

record pagination =
  currentPage :: number
  totalPages :: number
  totalCount :: number
  limit :: number
  hasNext :: bool
  hasPrev :: bool

record image_view =
  iv_id :: uuid
  iv_fileName :: string
  iv_filePath :: "string option"
  iv_fileSize :: "nat option"
  iv_mimeType :: "string option"
  iv_imageType :: string
  iv_bodyPart :: string
  iv_notes :: "string option"
  iv_publicUrl :: "string option"
  iv_uploadedAt :: "timestamp option"
  iv_uploadedBy :: "uuid option"
  iv_updatedAt :: "timestamp option"
  iv_updatedBy :: "uuid option"

record symptom_view =
  sv_id :: uuid
  sv_name :: string
  sv_severity :: string
  sv_duration :: "string option"
  sv_notes :: "string option"
  sv_recordedAt :: timestamp

record patient_ref =
  pr_id :: uuid
  pr_firstName :: string
  pr_lastName :: string

record personnel_ref =
  pe_firstName :: string
  pe_lastName :: string
  pe_role :: string

record session_view =
  se_id :: uuid
  se_notes :: "string option"
  se_recordedAt :: timestamp

datatype body =
    Err string string
  | ValidationErr "string list"
  | UserToken string user_view string
  | PatientBody string patient_view
  | PatientDetail patient_view "personnel_ref option"
  | PatientListBody "patient_view list" pagination
  | Message string string
  | PatientStats nat "(string \<times> nat) list" nat
  | ImageBody string image_view "patient_ref option"
  | SymptomsBody string patient_ref "symptom_view list" "session_view option"

record response =
  status :: nat
  body :: body

definition json :: "nat \<Rightarrow> body \<Rightarrow> response" where
  "json s b = \<lparr>status = s, body = b\<rparr>"

section \<open>middleware/auth.js\<close>

text \<open>
  \<open>jwt.verify(token, process.env.JWT_SECRET)\<close> belongs to the jsonwebtoken library: it
  returns the decoded payload or throws an error with one of three names. It is a
  parameter of the model.
\<close>

datatype jwt_error = JsonWebTokenError | TokenExpiredError | NotBeforeError

record claims =
  userId :: uuid
  cl_email :: string
  cl_role :: string

type_synonym verifier = "string \<Rightarrow> jwt_error + claims"

text \<open>\<open>req.user\<close>, the identity a middleware attaches to the request.\<close>

record req_user =
  ru_id :: uuid
  ru_email :: string
  ru_role :: string

text \<open>A middleware either answers the request itself or calls \<open>next()\<close>.\<close>

datatype 'a mw = Respond response | Next 'a

text \<open>JavaScript's \<open>s.split(' ')\<close>: the pieces between single spaces, empty ones kept.\<close>

fun split_on :: "char \<Rightarrow> string \<Rightarrow> string list" where
  "split_on c [] = [[]]"
| "split_on c (x # xs) =
     (if x = c then [] # split_on c xs
      else (case split_on c xs of w # ws \<Rightarrow> (x # w) # ws | [] \<Rightarrow> [[x]]))"

text \<open>
  \<open>authHeader && authHeader.split(' ')[1]\<close>, followed by the test \<open>!token\<close>: a missing
  header, an empty header, a header with no second piece and an empty second piece are
  all falsy. \<open>None\<close> is the falsy case, \<open>Some t\<close> a non-empty token.
\<close>

definition header_token :: "string option \<Rightarrow> string option" where
  "header_token authHeader =
     (case authHeader of
        None \<Rightarrow> None
      | Some h \<Rightarrow>
          (if h = [] then None
           else (case split_on CHR '' '' h of
                   _ # t # _ \<Rightarrow> (if t = [] then None else Some t)
                 | _ \<Rightarrow> None)))"

text \<open>
  The row a \<open>.select(columns)\<close> returns has only the selected columns; reading another
  one gives \<open>undefined\<close>. Of the columns the middlewares read, only \<open>is_active\<close> is ever left
  out, so the selected row records it as an option and \<open>None\<close> stands for both \<open>undefined\<close>
  and NULL (both falsy).
\<close>

record selected_user =
  su_id :: uuid
  su_email :: string
  su_role :: string
  su_is_active :: "bool option"

definition select_user :: "string list \<Rightarrow> personnel \<Rightarrow> selected_user" where
  "select_user columns u =
     \<lparr>su_id = mp_id u, su_email = mp_email u, su_role = mp_role u,
      su_is_active = (if ''is_active'' \<in> set columns then mp_is_active u else None)\<rparr>"

definition find_user_by_id ::
    "faults \<Rightarrow> call \<Rightarrow> string list \<Rightarrow> db \<Rightarrow> uuid \<Rightarrow> selected_user option" where
  "find_user_by_id flt c columns d i =
     (if flt c then None
      else map_option (select_user columns)
             (single (filter (\<lambda>u. mp_id u = i) (medical_personnel d))))"

definition attach :: "selected_user \<Rightarrow> req_user" where
  "attach user = \<lparr>ru_id = su_id user, ru_email = su_email user, ru_role = su_role user\<rparr>"

definition authenticateToken ::
    "verifier \<Rightarrow> faults \<Rightarrow> db \<Rightarrow> string option \<Rightarrow> req_user mw" where
  "authenticateToken verify flt d authHeader =
     (case header_token authHeader of
        None \<Rightarrow> Respond (json 401 (Err ''Access token required''
                   ''Please provide a valid authentication token''))
      | Some token \<Rightarrow>
          (case verify token of
             Inl JsonWebTokenError \<Rightarrow> Respond (json 401 (Err ''Invalid token''
                   ''The provided token is invalid or expired''))
           | Inl TokenExpiredError \<Rightarrow> Respond (json 401 (Err ''Token expired''
                   ''Your session has expired. Please login again.''))
           | Inl NotBeforeError \<Rightarrow> Respond (json 500 (Err ''Authentication error''
                   ''An error occurred during authentication''))
           | Inr decoded \<Rightarrow>
               (case find_user_by_id flt AuthLookup
                       [''id'', ''email'', ''role'', ''is_active''] d (userId decoded) of
                  None \<Rightarrow> Respond (json 401 (Err ''Invalid token''
                   ''User not found or account deactivated''))
                | Some user \<Rightarrow>
                    (if su_is_active user \<noteq> Some True
                     then Respond (json 403 (Err ''Account deactivated''
                   ''Your account has been deactivated. Please contact administrator.''))
                     else Next (attach user)))))"

text \<open>
  \<open>optionalAuth\<close> never answers the request: it calls \<open>next()\<close> with or without
  \<open>req.user\<close>. Its query selects \<open>id, email, role\<close> only.
\<close>

definition optionalAuth ::
    "verifier \<Rightarrow> faults \<Rightarrow> db \<Rightarrow> string option \<Rightarrow> req_user option mw" where
  "optionalAuth verify flt d authHeader =
     (case header_token authHeader of
        None \<Rightarrow> Next None
      | Some token \<Rightarrow>
          (case verify token of
             Inl e \<Rightarrow> Next None
           | Inr decoded \<Rightarrow>
               (case find_user_by_id flt OptionalLookup
                       [''id'', ''email'', ''role''] d (userId decoded) of
                  None \<Rightarrow> Next None
                | Some user \<Rightarrow>
                    (if su_is_active user = Some True then Next (Some (attach user))
                     else Next None))))"

text \<open>\<open>requireRole(allowedRoles)\<close>, applied to the request's \<open>req.user\<close>.\<close>

definition requireRole :: "string list \<Rightarrow> req_user option \<Rightarrow> req_user mw" where
  "requireRole allowedRoles user =
     (case user of
        None \<Rightarrow> Respond (json 401 (Err ''Authentication required''
                   ''Please login to access this resource''))
      | Some u \<Rightarrow>
          (if ru_role u \<notin> set allowedRoles
           then Respond (json 403 (Err ''Insufficient permissions''
                   ''You do not have permission to access this resource''))
           else Next u))"

section \<open>Library functions and the clock\<close>

text \<open>
  What the handlers call but the repository does not define: jsonwebtoken, bcryptjs,
  the validator predicates whose grammar is the library's, PostgREST's reading of the
  filter string handed to \<open>.or(...)\<close> (the rows it keeps, or nothing when it refuses the
  string), Node's \<open>path.extname\<close>, the storage client's \<open>getPublicUrl\<close>, the UUID
  generators (the \<open>n\<close>-th UUID drawn while the request is handled), \<open>new Date()\<close>, and the
  number of bytes busboy hands on for a file part under a size limit below zero (see
  \<open>upload_single\<close>).
\<close>

record lib =
  jwt_verify :: verifier
  jwt_sign :: "claims \<Rightarrow> string"
  bcrypt_hash :: "string \<Rightarrow> string"
  bcrypt_compare :: "string \<Rightarrow> string \<Rightarrow> bool"
  isEmail :: "string \<Rightarrow> bool"
  normalizeEmail :: "string \<Rightarrow> string"
  isISO8601 :: "string \<Rightarrow> bool"
  isUUID :: "string \<Rightarrow> bool"
  postgrest_or :: "string \<Rightarrow> (patient \<Rightarrow> bool) option"
  path_extname :: "string \<Rightarrow> string"
  getPublicUrl :: "string \<Rightarrow> string"
  uuid_gen :: "nat \<Rightarrow> uuid"
  now :: timestamp
  busboy_cut :: "number \<Rightarrow> nat \<Rightarrow> nat"

section \<open>middleware/validation.js\<close>

text \<open>
  Strings are ASCII here, so a length is a number of characters. A request field that is
  absent (\<open>undefined\<close>) is \<open>None\<close>; express-validator checks it as the empty string
  unless the chain is \<open>optional()\<close>, which skips an absent field.
\<close>

definition str :: "string option \<Rightarrow> string" where
  "str v = (case v of None \<Rightarrow> [] | Some s \<Rightarrow> s)"

definition is_space :: "char \<Rightarrow> bool" where
  "is_space c = (c = CHR '' '' \<or> (9 \<le> (of_char c :: nat) \<and> (of_char c :: nat) \<le> 13))"

definition is_digit :: "char \<Rightarrow> bool" where
  "is_digit c = (48 \<le> (of_char c :: nat) \<and> (of_char c :: nat) \<le> 57)"

definition is_lower :: "char \<Rightarrow> bool" where
  "is_lower c = (97 \<le> (of_char c :: nat) \<and> (of_char c :: nat) \<le> 122)"














section \<open>routes/auth.js\<close>









section \<open>Numbers in query strings\<close>

text \<open>
  \<open>parseInt\<close> skips leading white space, reads a sign, then the longest run of digits
  (hexadecimal ones after \<open>0x\<close>), and gives \<open>NaN\<close> when there is none; otherwise its value
  is the double nearest to the integer the digits denote. An absent value is read as the
  string \<open>undefined\<close>, which has no digits.
\<close>

definition digit_val :: "char \<Rightarrow> nat" where
  "digit_val c =
     (if is_digit c then of_char c - 48
      else if is_lower c then of_char c - 87
      else of_char c - 55)"

definition is_hex :: "char \<Rightarrow> bool" where
  "is_hex c = (is_digit c \<or> (97 \<le> (of_char c :: nat) \<and> (of_char c :: nat) \<le> 102)
                 \<or> (65 \<le> (of_char c :: nat) \<and> (of_char c :: nat) \<le> 70))"

definition digits_val :: "nat \<Rightarrow> string \<Rightarrow> nat" where
  "digits_val radix ds = foldl (\<lambda>n c. radix * n + digit_val c) 0 ds"

definition parse_magnitude :: "string \<Rightarrow> nat option" where
  "parse_magnitude r =
     (if take 2 r = ''0x'' \<or> take 2 r = ''0X''
      then (let ds = takeWhile is_hex (drop 2 r)
            in if ds = [] then None else Some (digits_val 16 ds))
      else (let ds = takeWhile is_digit r
            in if ds = [] then None else Some (digits_val 10 ds)))"

definition to_number :: "int option \<Rightarrow> number" where
  "to_number v = (case v of None \<Rightarrow> NaN | Some n \<Rightarrow> round_double n)"

definition parseInt :: "string option \<Rightarrow> number" where
  "parseInt v =
     (case v of
        None \<Rightarrow> NaN
      | Some s \<Rightarrow>
          (let t = dropWhile is_space s
           in case t of
                [] \<Rightarrow> NaN
              | c # r \<Rightarrow>
                  (if c = CHR ''-''
                   then to_number (map_option (\<lambda>n. - int n) (parse_magnitude r))
                   else if c = CHR ''+'' then to_number (map_option int (parse_magnitude r))
                   else to_number (map_option int (parse_magnitude t)))))"





section \<open>routes/patients.js\<close>

text \<open>\<open>router.use(authenticateToken)\<close>: every handler of the router runs behind it.\<close>

definition authenticated ::
    "lib \<Rightarrow> faults \<Rightarrow> db \<Rightarrow> string option \<Rightarrow> (req_user \<Rightarrow> response \<times> db) \<Rightarrow> response \<times> db" where
  "authenticated e flt d authHeader handler =
     (case authenticateToken (jwt_verify e) flt d authHeader of
        Respond r \<Rightarrow> (r, d)
      | Next u \<Rightarrow> handler u)"




















text \<open>
  \<open>.update(values).eq('id', id)\<close>: every row with that id takes the values; a failed
  call changes nothing.
\<close>

definition update_patients :: "(patient \<Rightarrow> patient) \<Rightarrow> uuid \<Rightarrow> db \<Rightarrow> db" where
  "update_patients f i d =
     d\<lparr>patients := map (\<lambda>p. if pt_id p = i then f p else p) (patients d)\<rparr>"


text \<open>\<open>DELETE /:id\<close>: the soft delete, behind \<open>requireRole(['admin'])\<close> in the route.\<close>

definition soft_delete :: "timestamp \<Rightarrow> uuid \<Rightarrow> patient \<Rightarrow> patient" where
  "soft_delete t actor p =
     p\<lparr>pt_is_deleted := Some True, pt_deleted_at := Some t, pt_deleted_by := Some actor\<rparr>"

definition delete_patient ::
    "lib \<Rightarrow> faults \<Rightarrow> req_user \<Rightarrow> uuid \<Rightarrow> db \<Rightarrow> response \<times> db" where
  "delete_patient e flt user i d =
     (if flt PatientDelete
      then (json 500 (Err ''Patient deletion failed'' ''Failed to delete patient record''), d)
      else (json 200 (Message ''Patient deleted successfully''
              ''Patient record has been soft deleted''),
            update_patients (soft_delete (now e) (ru_id user)) i d))"








definition delete_patient_route ::
    "lib \<Rightarrow> faults \<Rightarrow> string option \<Rightarrow> uuid \<Rightarrow> db \<Rightarrow> response \<times> db" where
  "delete_patient_route e flt authHeader i d =
     authenticated e flt d authHeader
       (\<lambda>user. case requireRole [''admin''] (Some user) of
                  Respond r \<Rightarrow> (r, d)
                | Next u \<Rightarrow> delete_patient e flt u i d)"

section \<open>routes/upload.js\<close>

text \<open>
  The multer configuration reads two environment variables. multer itself is a library;
  what the model takes from it: \<open>upload.single('image')\<close> leaves \<open>req.file\<close> undefined
  when the request has no such part; otherwise it calls \<open>fileFilter\<close> when the part starts,
  and passes the filter's error on; for a part that was let in, busboy (version 1, under
  multer from 1.4.5-lts.1 on) counts the bytes it hands on, cuts each chunk so that the
  count does not pass \<open>limits.fileSize\<close>, and as soon as the count is equal to the limit
  the part is refused with the error code \<open>LIMIT_FILE_SIZE\<close>: so a part of at least as
  many bytes as a positive limit is refused, and a smaller one passes whole. A limit
  below zero is never met, and cutting a chunk by a negative length leaves a number of
  bytes that depends on how the body arrives; that number is a parameter of the model
  (\<open>busboy_cut\<close>). A limit of zero or \<open>NaN\<close> does not occur, \<open>||\<close> having replaced it. Both errors
  go to \<open>next(err)\<close>, so the route's handler does not run; in particular the handler's
  \<open>catch\<close> block, which would answer 400 to an error whose message contains
  \<open>Invalid file type\<close>, never sees the filter's error, and nothing inside its \<open>try\<close> raises
  one. What is sent for an error passed to \<open>next\<close> is decided where the application is
  assembled, outside the routes.
\<close>

record upload_env =
  MAX_FILE_SIZE :: "string option"
  ALLOWED_FILE_TYPES :: "string option"

record upload_file =
  originalname :: string
  mimetype :: string
  file_size :: nat

datatype multer_error = InvalidFileType "string list" | LIMIT_FILE_SIZE

text \<open>\<open>v || dflt\<close> and \<open>!v\<close> on a string that may be absent: \<open>undefined\<close> and \<open>''\<close> are falsy.\<close>

definition or_str :: "string option \<Rightarrow> string \<Rightarrow> string" where
  "or_str v dflt = (case v of None \<Rightarrow> dflt | Some s \<Rightarrow> if s = [] then dflt else s)"

definition truthy :: "string option \<Rightarrow> bool" where
  "truthy v = (case v of None \<Rightarrow> False | Some s \<Rightarrow> s \<noteq> [])"

definition fileSize :: "upload_env \<Rightarrow> number" where
  "fileSize env = or_default (parseInt (MAX_FILE_SIZE env)) (Num (10 * 1024 * 1024))"

definition allowedTypes :: "upload_env \<Rightarrow> string list" where
  "allowedTypes env =
     split_on CHR '','' (or_str (ALLOWED_FILE_TYPES env) ''image/jpeg,image/png,image/jpg'')"

definition fileFilter :: "upload_env \<Rightarrow> upload_file \<Rightarrow> multer_error option" where
  "fileFilter env file =
     (if mimetype file \<in> set (allowedTypes env) then None
      else Some (InvalidFileType (allowedTypes env)))"

definition limit_met :: "number \<Rightarrow> nat \<Rightarrow> bool" where
  "limit_met lmt bytes = (js_less (Num 0) lmt \<and> \<not> js_less (Num (int bytes)) lmt)"

definition upload_single ::
    "lib \<Rightarrow> upload_env \<Rightarrow> upload_file option \<Rightarrow> multer_error + upload_file option" where
  "upload_single e env part =
     (case part of
        None \<Rightarrow> Inr None
      | Some file \<Rightarrow>
          (case fileFilter env file of
             Some err \<Rightarrow> Inl err
           | None \<Rightarrow>
               (if limit_met (fileSize env) (file_size file) then Inl LIMIT_FILE_SIZE
                else if negative (fileSize env)
                then Inr (Some (file\<lparr>file_size :=
                                     busboy_cut e (fileSize env) (file_size file)\<rparr>))
                else Inr (Some file))))"

text \<open>
  The storage bucket. An upload without \<open>upsert\<close> is refused when the path is taken; a
  removal that fails leaves the object where it is.
\<close>

definition storage_upload :: "faults \<Rightarrow> string \<Rightarrow> blob \<Rightarrow> db \<Rightarrow> db option" where
  "storage_upload flt path b d =
     (if flt XrayStorageUpload \<or> xray_bucket d path \<noteq> None then None
      else Some (d\<lparr>xray_bucket := (xray_bucket d)(path \<mapsto> b)\<rparr>))"

definition storage_remove :: "faults \<Rightarrow> string \<Rightarrow> db \<Rightarrow> db" where
  "storage_remove flt path d =
     (if flt XrayStorageRemove then d
      else d\<lparr>xray_bucket := (xray_bucket d)(path := None)\<rparr>)"

definition insert_xray :: "faults \<Rightarrow> xray_image \<Rightarrow> db \<Rightarrow> db option" where
  "insert_xray flt row d =
     (if flt XrayInsert \<or> xr_id row \<in> set (map xr_id (xray_images d)) then None
      else Some (d\<lparr>xray_images := xray_images d @ [row]\<rparr>))"

text \<open>The patient check of the upload and symptom routes: \<open>is_deleted = false\<close> is part of it.\<close>

definition find_live_patient :: "faults \<Rightarrow> call \<Rightarrow> db \<Rightarrow> uuid \<Rightarrow> patient option" where
  "find_live_patient flt c d i =
     (if flt c then None
      else single (filter (\<lambda>p. pt_id p = i \<and> pt_is_deleted p = Some False) (patients d)))"

definition patient_ref_of :: "patient \<Rightarrow> patient_ref" where
  "patient_ref_of p =
     \<lparr>pr_id = pt_id p, pr_firstName = pt_first_name p, pr_lastName = pt_last_name p\<rparr>"

record xray_body =
  xb_patientId :: "string option"
  xb_imageType :: "string option"
  xb_notes :: "string option"
  xb_bodyPart :: "string option"

definition uploaded_view :: "xray_image \<Rightarrow> image_view" where
  "uploaded_view r =
     \<lparr>iv_id = xr_id r, iv_fileName = xr_file_name r, iv_filePath = Some (xr_file_path r),
      iv_fileSize = Some (xr_file_size r), iv_mimeType = Some (xr_mime_type r),
      iv_imageType = xr_image_type r, iv_bodyPart = xr_body_part r, iv_notes = xr_notes r,
      iv_publicUrl = Some (xr_public_url r), iv_uploadedAt = Some (xr_uploaded_at r),
      iv_uploadedBy = Some (xr_uploaded_by r), iv_updatedAt = None, iv_updatedBy = None\<rparr>"

text \<open>The storage key, the stored object and the metadata row the handler builds.\<close>

definition xray_fileName :: "lib \<Rightarrow> uuid \<Rightarrow> upload_file \<Rightarrow> string" where
  "xray_fileName e patientId file =
     ''xray_'' @ patientId @ ''_'' @ uuid_gen e 0 @ path_extname e (originalname file)"

definition xray_filePath :: "lib \<Rightarrow> uuid \<Rightarrow> upload_file \<Rightarrow> string" where
  "xray_filePath e patientId file = patientId @ ''/'' @ xray_fileName e patientId file"

definition xray_object :: "req_user \<Rightarrow> uuid \<Rightarrow> upload_file \<Rightarrow> xray_body \<Rightarrow> blob" where
  "xray_object user patientId file b =
     \<lparr>bl_size = file_size file, bl_contentType = mimetype file,
      bl_originalName = originalname file,
      bl_uploadedBy = ru_id user, bl_patientId = patientId,
      bl_imageType = or_str (xb_imageType b) ''xray'',
      bl_bodyPart = or_str (xb_bodyPart b) ''unknown''\<rparr>"

definition xray_record ::
    "lib \<Rightarrow> req_user \<Rightarrow> uuid \<Rightarrow> upload_file \<Rightarrow> xray_body \<Rightarrow> xray_image" where
  "xray_record e user patientId file b =
     \<lparr>xr_id = uuid_gen e 1, xr_patient_id = patientId,
      xr_file_name = xray_fileName e patientId file,
      xr_file_path = xray_filePath e patientId file,
      xr_file_size = file_size file, xr_mime_type = mimetype file,
      xr_image_type = or_str (xb_imageType b) ''xray'',
      xr_body_part = or_str (xb_bodyPart b) ''unknown'',
      xr_notes = (if truthy (xb_notes b) then xb_notes b else None),
      xr_public_url = getPublicUrl e (xray_filePath e patientId file),
      xr_uploaded_by = ru_id user, xr_uploaded_at = now e,
      xr_updated_at = Some (now e), xr_updated_by = None\<rparr>"

definition upload_xray ::
    "lib \<Rightarrow> faults \<Rightarrow> req_user \<Rightarrow> upload_file option \<Rightarrow> xray_body \<Rightarrow> db \<Rightarrow> response \<times> db" where
  "upload_xray e flt user reqfile b d =
     (case reqfile of
        None \<Rightarrow> (json 400 (Err ''No file uploaded'' ''Please upload an X-ray image''), d)
      | Some file \<Rightarrow>
          (if \<not> truthy (xb_patientId b)
           then (json 400 (Err ''Patient ID required'' ''Please provide a patient ID''), d)
           else
             (let patientId = str (xb_patientId b)
              in case find_live_patient flt XrayPatientLookup d patientId of
                   None \<Rightarrow>
                     (json 404 (Err ''Patient not found'' ''Patient record not found''), d)
                 | Some patient \<Rightarrow>
                     (let filePath = xray_filePath e patientId file
                      in case storage_upload flt filePath
                                (xray_object user patientId file b) d of
                           None \<Rightarrow>
                             (json 500 (Err ''File upload failed''
                                ''Failed to upload X-ray image to storage''), d)
                         | Some d1 \<Rightarrow>
                             (let imageRecord = xray_record e user patientId file b
                              in case insert_xray flt imageRecord d1 of
                                   None \<Rightarrow>
                                     (json 500 (Err ''Record creation failed''
                                        ''Failed to create image record in database''),
                                      storage_remove flt filePath d1)
                                 | Some d2 \<Rightarrow>
                                     (json 201 (ImageBody ''X-ray image uploaded successfully''
                                        (uploaded_view imageRecord)
                                        (Some (patient_ref_of patient))), d2))))))"

text \<open>
  \<open>POST /xray\<close> as mounted: \<open>authenticateToken\<close>, then \<open>upload.single('image')\<close>, then the
  handler. A multer error leaves the route without a response of the handler's.
\<close>

definition post_xray ::
    "lib \<Rightarrow> upload_env \<Rightarrow> faults \<Rightarrow> string option \<Rightarrow> upload_file option \<Rightarrow> xray_body \<Rightarrow> db
       \<Rightarrow> (multer_error + response) \<times> db" where
  "post_xray e env flt authHeader part b d =
     (case authenticateToken (jwt_verify e) flt d authHeader of
        Respond r \<Rightarrow> (Inr r, d)
      | Next user \<Rightarrow>
          (case upload_single e env part of
             Inl err \<Rightarrow> (Inl err, d)
           | Inr reqfile \<Rightarrow>
               (case upload_xray e flt user reqfile b d of (r, d') \<Rightarrow> (Inr r, d'))))"






section \<open>routes/symptoms.js\<close>













section \<open>A sample installation\<close>

text \<open>
  Concrete library functions, rows and requests on which the theorems below are
  instantiated: an admin, a nurse and a deactivated doctor, tokens for them and for an
  account that no longer exists, and numbered patients.
\<close>

definition sample_claims :: "string \<Rightarrow> claims" where
  "sample_claims name =
     \<lparr>userId = ''u-'' @ name, cl_email = name @ ''@x.com'', cl_role = name\<rparr>"

definition sample_verify :: verifier where
  "sample_verify t =
     (if t = ''t-admin'' then Inr (sample_claims ''admin'')
      else if t = ''t-nurse'' then Inr (sample_claims ''nurse'')
      else if t = ''t-doctor'' then Inr (sample_claims ''doctor'')
      else if t = ''t-gone'' then Inr (sample_claims ''gone'')
      else if t = ''t-old'' then Inl TokenExpiredError
      else Inl JsonWebTokenError)"

definition sample_lib :: lib where
  "sample_lib =
     \<lparr>jwt_verify = sample_verify,
      jwt_sign = (\<lambda>c. ''jwt:'' @ userId c),
      bcrypt_hash = (\<lambda>pw. ''hash:'' @ pw),
      bcrypt_compare = (\<lambda>pw h. h = ''hash:'' @ pw),
      isEmail = (\<lambda>s. CHR ''@'' \<in> set s),
      normalizeEmail = (\<lambda>s. s),
      isISO8601 = (\<lambda>s. length s = 10),
      isUUID = (\<lambda>s. s \<noteq> []),
      postgrest_or = (\<lambda>flt. None),
      path_extname = (\<lambda>n. dropWhile (\<lambda>c. c \<noteq> CHR ''.'') n),
      getPublicUrl = (\<lambda>path. ''https://storage/'' @ path),
      uuid_gen = (\<lambda>k. ''new-'' @ replicate k CHR ''i''),
      now = 1700000000000,
      busboy_cut = (\<lambda>lmt bytes. 0)\<rparr>"

definition sample_personnel :: "string \<Rightarrow> bool \<Rightarrow> personnel" where
  "sample_personnel name active =
     \<lparr>mp_id = ''u-'' @ name, mp_email = name @ ''@x.com'',
      mp_password_hash = ''hash:Secret123'', mp_first_name = ''Sam'',
      mp_last_name = name, mp_role = name, mp_license_number = None,
      mp_is_active = Some active, mp_created_at = 1600000000000,
      mp_last_login = None\<rparr>"

definition sample_patient :: "nat \<Rightarrow> patient" where
  "sample_patient k =
     \<lparr>pt_id = ''p-'' @ replicate k CHR ''i'', pt_first_name = ''Pat'',
      pt_last_name = replicate (Suc k) CHR ''a'', pt_date_of_birth = ''1980-01-01'',
      pt_gender = ''other'', pt_phone_number = None, pt_email = None,
      pt_address = None, pt_medical_history = None, pt_is_deleted = Some False,
      pt_created_by = ''u-admin'', pt_created_at = 1600000000000 + k,
      pt_updated_at = None, pt_updated_by = None, pt_deleted_at = None,
      pt_deleted_by = None\<rparr>"

definition sample_db :: "nat \<Rightarrow> db" where
  "sample_db n =
     \<lparr>medical_personnel =
        [sample_personnel ''admin'' True, sample_personnel ''nurse'' True,
         sample_personnel ''doctor'' False],
      patients = map sample_patient [0 ..< n],
      symptoms = [], symptom_sessions = [], xray_images = [],
      xray_bucket = Map.empty\<rparr>"

definition sample_admin :: req_user where
  "sample_admin = \<lparr>ru_id = ''u-admin'', ru_email = ''admin@x.com'', ru_role = ''admin''\<rparr>"

definition default_env :: upload_env where
  "default_env = \<lparr>MAX_FILE_SIZE = None, ALLOWED_FILE_TYPES = None\<rparr>"

definition sample_file :: "string \<Rightarrow> string \<Rightarrow> nat \<Rightarrow> upload_file" where
  "sample_file name type bytes =
     \<lparr>originalname = name, mimetype = type, file_size = bytes\<rparr>"

definition sample_xray_body :: "string option \<Rightarrow> xray_body" where
  "sample_xray_body patientId =
     \<lparr>xb_patientId = patientId, xb_imageType = None, xb_notes = None,
      xb_bodyPart = Some ''chest''\<rparr>"

text \<open>Two fault patterns: the metadata insert fails; the insert and the removal fail.\<close>

definition insert_fails :: faults where
  "insert_fails = (\<lambda>c. c = XrayInsert)"

definition insert_and_remove_fail :: faults where
  "insert_and_remove_fail = (\<lambda>c. c = XrayInsert \<or> c = XrayStorageRemove)"






section \<open>Auxiliary facts\<close>

lemma filter_key_distinct:
  "distinct (map f xs) \<Longrightarrow> x \<in> set xs \<Longrightarrow> filter (\<lambda>y. f y = f x) xs = [x]"
proof (induction xs)
  case Nil
  then show ?case by simp
next
  case (Cons a xs)
  show ?case
  proof (cases "a = x")
    case True
    with Cons.prems have "f x \<notin> f ` set xs" by auto
    then have "\<forall>y \<in> set xs. f y \<noteq> f x" by (metis imageI)
    then have "filter (\<lambda>y. f y = f x) xs = []"
      by (simp add: filter_empty_conv)
    with True show ?thesis by simp
  next
    case False
    with Cons.prems have xin: "x \<in> set xs" and "f a \<notin> f ` set xs" by auto
    then have "f a \<noteq> f x" by (metis imageI)
    with Cons.IH Cons.prems xin show ?thesis by simp
  qed
qed

lemma filter_key_absent:
  "i \<notin> set (map f xs) \<Longrightarrow> filter (\<lambda>y. f y = i) xs = []"
  by (auto simp: filter_empty_conv)

lemma map_key_update:
  "(\<And>x. f x = i \<Longrightarrow> f (g x) = f x) \<Longrightarrow> map f (map (\<lambda>x. if f x = i then g x else x) xs) = map f xs"
  by (induction xs) auto

lemma in_set_map_update:
  "x \<in> set xs \<Longrightarrow> f x = i \<Longrightarrow> g x \<in> set (map (\<lambda>y. if f y = i then g y else y) xs)"
  by (induction xs) auto

lemma set_map_update_cases:
  "q \<in> set (map (\<lambda>y. if f y = i then g y else y) xs) \<Longrightarrow>
     (q \<in> set xs \<and> f q \<noteq> i) \<or> (\<exists>x \<in> set xs. f x = i \<and> q = g x)"
  by (induction xs) (auto split: if_splits)

lemma authenticated_next:
  "authenticateToken (jwt_verify e) flt d authHeader = Next user \<Longrightarrow>
     authenticated e flt d authHeader handler = handler user"
  by (simp add: authenticated_def)

lemma authenticated_respond:
  "authenticateToken (jwt_verify e) flt d authHeader = Respond r \<Longrightarrow>
     authenticated e flt d authHeader handler = (r, d)"
  by (simp add: authenticated_def)



lemma sample_header:
  "header_token (Some (''Bearer t-admin'')) = Some ''t-admin''"
  "header_token (Some (''Bearer t-nurse'')) = Some ''t-nurse''"
  "header_token (Some (''Bearer t-doctor'')) = Some ''t-doctor''"
  "header_token (Some (''Bearer t-gone'')) = Some ''t-gone''"
  by (simp_all add: header_token_def)

lemma sample_db_personnel:
  "distinct (map mp_id (medical_personnel (sample_db n)))"
  "distinct (map mp_email (medical_personnel (sample_db n)))"
  "sample_personnel ''admin'' True \<in> set (medical_personnel (sample_db n))"
  "sample_personnel ''nurse'' True \<in> set (medical_personnel (sample_db n))"
  "sample_personnel ''doctor'' False \<in> set (medical_personnel (sample_db n))"
  "''u-gone'' \<notin> set (map mp_id (medical_personnel (sample_db n)))"
  by (simp_all add: sample_db_def sample_personnel_def)

lemma sample_auth:
  "authenticateToken (jwt_verify sample_lib) no_faults (sample_db n) (Some ''Bearer t-admin'') =
     Next \<lparr>ru_id = ''u-admin'', ru_email = ''admin@x.com'', ru_role = ''admin''\<rparr>"
  "authenticateToken (jwt_verify sample_lib) no_faults (sample_db n) (Some ''Bearer t-nurse'') =
     Next \<lparr>ru_id = ''u-nurse'', ru_email = ''nurse@x.com'', ru_role = ''nurse''\<rparr>"
  by (simp_all add: authenticateToken_def sample_header sample_lib_def sample_verify_def
        sample_claims_def find_user_by_id_def no_faults_def sample_db_def
        sample_personnel_def select_user_def attach_def)

section \<open>The authentication middleware\<close>

text \<open>
  C1. On an authenticated route, \<open>authenticateToken\<close> answers 401 (Unauthenticated) when
  the Authorization header carries no bearer token; when the token verifies but no row
  of the credential store has the token's \<open>userId\<close>, it answers 401; when the row exists
  and the lookup is answered but the row is not active, it answers 403 (Forbidden), so a
  still-valid token of a deactivated identity is always refused with 403; and when the row
  is active it attaches \<open>{id, email, role}\<close> of that row and calls \<open>next()\<close>. The
  identifiers of the store are unique (primary key).
\<close>

theorem C1_authenticateToken:
  "(header_token authHeader = None \<longrightarrow>
      authenticateToken verify flt d authHeader =
        Respond (json 401 (Err ''Access token required''
          ''Please provide a valid authentication token'')))
   \<and> (header_token authHeader = Some t \<and> verify t = Inr c
        \<and> userId c \<notin> set (map mp_id (medical_personnel d)) \<longrightarrow>
      authenticateToken verify flt d authHeader =
        Respond (json 401 (Err ''Invalid token'' ''User not found or account deactivated'')))
   \<and> (header_token authHeader = Some t \<and> verify t = Inr c \<and> \<not> flt AuthLookup
        \<and> distinct (map mp_id (medical_personnel d))
        \<and> u \<in> set (medical_personnel d) \<and> mp_id u = userId c
        \<and> mp_is_active u \<noteq> Some True \<longrightarrow>
      authenticateToken verify flt d authHeader =
        Respond (json 403 (Err ''Account deactivated''
          ''Your account has been deactivated. Please contact administrator.'')))
   \<and> (header_token authHeader = Some t \<and> verify t = Inr c \<and> \<not> flt AuthLookup
        \<and> distinct (map mp_id (medical_personnel d))
        \<and> u \<in> set (medical_personnel d) \<and> mp_id u = userId c
        \<and> mp_is_active u = Some True \<longrightarrow>
      authenticateToken verify flt d authHeader =
        Next \<lparr>ru_id = mp_id u, ru_email = mp_email u, ru_role = mp_role u\<rparr>)"
proof (intro conjI impI)
  assume "header_token authHeader = None"
  then show "authenticateToken verify flt d authHeader =
        Respond (json 401 (Err ''Access token required''
          ''Please provide a valid authentication token''))"
    by (simp add: authenticateToken_def)
next
  assume a: "header_token authHeader = Some t \<and> verify t = Inr c
        \<and> userId c \<notin> set (map mp_id (medical_personnel d))"
  then have "filter (\<lambda>u. mp_id u = userId c) (medical_personnel d) = []"
    using filter_key_absent [of "userId c" mp_id "medical_personnel d"] by simp
  with a show "authenticateToken verify flt d authHeader =
        Respond (json 401 (Err ''Invalid token'' ''User not found or account deactivated''))"
    by (simp add: authenticateToken_def find_user_by_id_def)
next
  assume a: "header_token authHeader = Some t \<and> verify t = Inr c \<and> \<not> flt AuthLookup
        \<and> distinct (map mp_id (medical_personnel d))
        \<and> u \<in> set (medical_personnel d) \<and> mp_id u = userId c
        \<and> mp_is_active u \<noteq> Some True"
  then have "filter (\<lambda>y. mp_id y = userId c) (medical_personnel d) = [u]"
    using filter_key_distinct [of mp_id "medical_personnel d" u] by simp
  with a show "authenticateToken verify flt d authHeader =
        Respond (json 403 (Err ''Account deactivated''
          ''Your account has been deactivated. Please contact administrator.''))"
    by (simp add: authenticateToken_def find_user_by_id_def select_user_def)
next
  assume a: "header_token authHeader = Some t \<and> verify t = Inr c \<and> \<not> flt AuthLookup
        \<and> distinct (map mp_id (medical_personnel d))
        \<and> u \<in> set (medical_personnel d) \<and> mp_id u = userId c
        \<and> mp_is_active u = Some True"
  then have "filter (\<lambda>y. mp_id y = userId c) (medical_personnel d) = [u]"
    using filter_key_distinct [of mp_id "medical_personnel d" u] by simp
  with a show "authenticateToken verify flt d authHeader =
        Next \<lparr>ru_id = mp_id u, ru_email = mp_email u, ru_role = mp_role u\<rparr>"
    by (simp add: authenticateToken_def find_user_by_id_def select_user_def attach_def)
qed

theorem C1_authenticateToken_witness:
  "authenticateToken sample_verify no_faults (sample_db 0) None =
     Respond (json 401 (Err ''Access token required''
       ''Please provide a valid authentication token''))
   \<and> authenticateToken sample_verify no_faults (sample_db 0) (Some ''Bearer t-gone'') =
     Respond (json 401 (Err ''Invalid token'' ''User not found or account deactivated''))
   \<and> authenticateToken sample_verify no_faults (sample_db 0) (Some ''Bearer t-doctor'') =
     Respond (json 403 (Err ''Account deactivated''
       ''Your account has been deactivated. Please contact administrator.''))
   \<and> authenticateToken sample_verify no_faults (sample_db 0) (Some ''Bearer t-admin'') =
     Next \<lparr>ru_id = ''u-admin'', ru_email = ''admin@x.com'', ru_role = ''admin''\<rparr>"
proof -
  have h1: "header_token None = None"
    by (simp add: header_token_def)
  have h2: "header_token (Some ''Bearer t-gone'') = Some ''t-gone''
      \<and> sample_verify ''t-gone'' = Inr (sample_claims ''gone'')
      \<and> userId (sample_claims ''gone'') \<notin> set (map mp_id (medical_personnel (sample_db 0)))"
    by (simp add: sample_header sample_verify_def sample_claims_def sample_db_def
          sample_personnel_def)
  have h3: "header_token (Some ''Bearer t-doctor'') = Some ''t-doctor''
      \<and> sample_verify ''t-doctor'' = Inr (sample_claims ''doctor'')
      \<and> \<not> no_faults AuthLookup
      \<and> distinct (map mp_id (medical_personnel (sample_db 0)))
      \<and> sample_personnel ''doctor'' False \<in> set (medical_personnel (sample_db 0))"
    by (simp add: sample_header sample_db_personnel sample_verify_def no_faults_def)
  have h3b: "mp_id (sample_personnel ''doctor'' False) = userId (sample_claims ''doctor'')
      \<and> mp_is_active (sample_personnel ''doctor'' False) \<noteq> Some True"
    by (simp add: sample_claims_def sample_personnel_def)
  have h4: "header_token (Some ''Bearer t-admin'') = Some ''t-admin''
      \<and> sample_verify ''t-admin'' = Inr (sample_claims ''admin'')
      \<and> \<not> no_faults AuthLookup
      \<and> distinct (map mp_id (medical_personnel (sample_db 0)))
      \<and> sample_personnel ''admin'' True \<in> set (medical_personnel (sample_db 0))"
    by (simp add: sample_header sample_db_personnel sample_verify_def no_faults_def)
  have h4b: "mp_id (sample_personnel ''admin'' True) = userId (sample_claims ''admin'')
      \<and> mp_is_active (sample_personnel ''admin'' True) = Some True"
    by (simp add: sample_claims_def sample_personnel_def)
  from h1 C1_authenticateToken [of None sample_verify no_faults "sample_db 0"]
  have a: "authenticateToken sample_verify no_faults (sample_db 0) None =
     Respond (json 401 (Err ''Access token required''
       ''Please provide a valid authentication token''))"
    by blast
  from h2 C1_authenticateToken [of "Some ''Bearer t-gone''" sample_verify no_faults
                  "sample_db 0" "''t-gone''" "sample_claims ''gone''"]
  have b: "authenticateToken sample_verify no_faults (sample_db 0) (Some ''Bearer t-gone'') =
     Respond (json 401 (Err ''Invalid token'' ''User not found or account deactivated''))"
    by blast
  from h3 h3b C1_authenticateToken [of "Some ''Bearer t-doctor''" sample_verify no_faults
                  "sample_db 0" "''t-doctor''" "sample_claims ''doctor''"
                  "sample_personnel ''doctor'' False"]
  have c: "authenticateToken sample_verify no_faults (sample_db 0) (Some ''Bearer t-doctor'') =
     Respond (json 403 (Err ''Account deactivated''
       ''Your account has been deactivated. Please contact administrator.''))"
    by blast
  from h4 h4b C1_authenticateToken [of "Some ''Bearer t-admin''" sample_verify no_faults
                  "sample_db 0" "''t-admin''" "sample_claims ''admin''"
                  "sample_personnel ''admin'' True"]
  have "authenticateToken sample_verify no_faults (sample_db 0) (Some ''Bearer t-admin'') =
     Next \<lparr>ru_id = mp_id (sample_personnel ''admin'' True),
           ru_email = mp_email (sample_personnel ''admin'' True),
           ru_role = mp_role (sample_personnel ''admin'' True)\<rparr>"
    by blast
  then have d: "authenticateToken sample_verify no_faults (sample_db 0) (Some ''Bearer t-admin'') =
     Next \<lparr>ru_id = ''u-admin'', ru_email = ''admin@x.com'', ru_role = ''admin''\<rparr>"
    by (simp add: sample_personnel_def)
  from a b c d show ?thesis by simp
qed

text \<open>
  C3. The optional variant is specified to attach \<open>{id, email, role}\<close> for a valid token
  of an existing, active identity and to go on without identity when any step fails.
  \<open>optionalAuth\<close> indeed never rejects, but it never attaches an identity either: its
  query selects \<open>id, email, role\<close>, so the \<open>is_active\<close> it tests on the returned row is
  always undefined. For every verifier, store and header the request goes on with no
  identity attached.
\<close>

theorem C3_optionalAuth_never_attaches:
  "optionalAuth verify flt d authHeader = Next None"
  by (simp add: optionalAuth_def find_user_by_id_def select_user_def
        split: option.splits sum.splits)

text \<open>
  The same request through both middlewares: a valid token of the active admin is
  given an identity by \<open>authenticateToken\<close> and none by \<open>optionalAuth\<close>.
\<close>

lemma optionalAuth_active_admin:
  "authenticateToken sample_verify no_faults (sample_db 0) (Some ''Bearer t-admin'') =
     Next \<lparr>ru_id = ''u-admin'', ru_email = ''admin@x.com'', ru_role = ''admin''\<rparr>
   \<and> optionalAuth sample_verify no_faults (sample_db 0) (Some ''Bearer t-admin'') = Next None"
  by (simp add: authenticateToken_def optionalAuth_def sample_header sample_verify_def
        sample_claims_def find_user_by_id_def no_faults_def sample_db_def
        sample_personnel_def select_user_def attach_def)

section \<open>The role gate and the soft delete\<close>

text \<open>
  C2. \<open>requireRole(allowedRoles)\<close> answers 401 when no identity is attached, 403 when the
  attached identity's role is not among \<open>allowedRoles\<close>, and calls \<open>next()\<close> otherwise; the
  model is a function of the attached identity and \<open>allowedRoles\<close> alone. On
  \<open>DELETE /patients/:id\<close> an authenticated nurse gets 403 and the store is untouched; an
  authenticated admin whose update is answered gets 200, every row with that id has
  \<open>is_deleted = true\<close> afterwards, and the table keeps the same rows in the same order
  (the row is kept, with \<open>is_deleted\<close>, \<open>deleted_at\<close> and \<open>deleted_by\<close> set).
\<close>

theorem C2_requireRole:
  "requireRole allowedRoles None =
      Respond (json 401 (Err ''Authentication required''
        ''Please login to access this resource''))
   \<and> (ru_role u \<notin> set allowedRoles \<longrightarrow>
        requireRole allowedRoles (Some u) =
          Respond (json 403 (Err ''Insufficient permissions''
            ''You do not have permission to access this resource'')))
   \<and> (ru_role u \<in> set allowedRoles \<longrightarrow> requireRole allowedRoles (Some u) = Next u)
   \<and> (authenticateToken (jwt_verify e) flt d authHeader = Next user
        \<and> ru_role user = ''nurse'' \<longrightarrow>
        delete_patient_route e flt authHeader i d =
          (json 403 (Err ''Insufficient permissions''
             ''You do not have permission to access this resource''), d))
   \<and> (authenticateToken (jwt_verify e) flt d authHeader = Next user
        \<and> ru_role user = ''admin'' \<and> \<not> flt PatientDelete
        \<and> p \<in> set (patients d) \<and> pt_id p = i \<longrightarrow>
        (\<exists>d'. delete_patient_route e flt authHeader i d =
                (json 200 (Message ''Patient deleted successfully''
                   ''Patient record has been soft deleted''), d')
            \<and> map pt_id (patients d') = map pt_id (patients d)
            \<and> p\<lparr>pt_is_deleted := Some True, pt_deleted_at := Some (now e),
                  pt_deleted_by := Some (ru_id user)\<rparr> \<in> set (patients d')
            \<and> (\<forall>q \<in> set (patients d'). pt_id q = i \<longrightarrow> pt_is_deleted q = Some True)))"
proof (intro conjI impI)
  show "requireRole allowedRoles None =
      Respond (json 401 (Err ''Authentication required''
        ''Please login to access this resource''))"
    by (simp add: requireRole_def)
next
  assume "ru_role u \<notin> set allowedRoles"
  then show "requireRole allowedRoles (Some u) =
          Respond (json 403 (Err ''Insufficient permissions''
            ''You do not have permission to access this resource''))"
    by (simp add: requireRole_def)
next
  assume "ru_role u \<in> set allowedRoles"
  then show "requireRole allowedRoles (Some u) = Next u"
    by (simp add: requireRole_def)
next
  assume "authenticateToken (jwt_verify e) flt d authHeader = Next user
        \<and> ru_role user = ''nurse''"
  then show "delete_patient_route e flt authHeader i d =
          (json 403 (Err ''Insufficient permissions''
             ''You do not have permission to access this resource''), d)"
    by (simp add: delete_patient_route_def authenticated_next requireRole_def)
next
  assume a: "authenticateToken (jwt_verify e) flt d authHeader = Next user
        \<and> ru_role user = ''admin'' \<and> \<not> flt PatientDelete
        \<and> p \<in> set (patients d) \<and> pt_id p = i"
  let ?d' = "update_patients (soft_delete (now e) (ru_id user)) i d"
  from a have r: "delete_patient_route e flt authHeader i d =
                (json 200 (Message ''Patient deleted successfully''
                   ''Patient record has been soft deleted''), ?d')"
    by (simp add: delete_patient_route_def authenticated_next requireRole_def
          delete_patient_def)
  have "map pt_id (map (\<lambda>x. if pt_id x = i then soft_delete (now e) (ru_id user) x else x)
            (patients d)) = map pt_id (patients d)"
    by (rule map_key_update) (simp add: soft_delete_def)
  then have ids: "map pt_id (patients ?d') = map pt_id (patients d)"
    by (simp add: update_patients_def)
  from a have "soft_delete (now e) (ru_id user) p \<in> set (patients ?d')"
    by (simp add: update_patients_def in_set_map_update del: set_map)
  then have row: "p\<lparr>pt_is_deleted := Some True, pt_deleted_at := Some (now e),
                  pt_deleted_by := Some (ru_id user)\<rparr> \<in> set (patients ?d')"
    by (simp add: soft_delete_def)
  have all: "\<forall>q \<in> set (patients ?d'). pt_id q = i \<longrightarrow> pt_is_deleted q = Some True"
  proof (intro ballI impI)
    fix q assume "q \<in> set (patients ?d')" and qi: "pt_id q = i"
    then have "(q \<in> set (patients d) \<and> pt_id q \<noteq> i) \<or>
        (\<exists>x \<in> set (patients d). pt_id x = i \<and> q = soft_delete (now e) (ru_id user) x)"
      using set_map_update_cases [of q pt_id i "soft_delete (now e) (ru_id user)" "patients d"]
      by (simp add: update_patients_def del: set_map)
    then show "pt_is_deleted q = Some True"
    proof
      assume "q \<in> set (patients d) \<and> pt_id q \<noteq> i"
      with qi show ?thesis by simp
    next
      assume "\<exists>x \<in> set (patients d). pt_id x = i \<and> q = soft_delete (now e) (ru_id user) x"
      then show ?thesis by (auto simp: soft_delete_def)
    qed
  qed
  from r ids row all
  show "\<exists>d'. delete_patient_route e flt authHeader i d =
                (json 200 (Message ''Patient deleted successfully''
                   ''Patient record has been soft deleted''), d')
            \<and> map pt_id (patients d') = map pt_id (patients d)
            \<and> p\<lparr>pt_is_deleted := Some True, pt_deleted_at := Some (now e),
                  pt_deleted_by := Some (ru_id user)\<rparr> \<in> set (patients d')
            \<and> (\<forall>q \<in> set (patients d'). pt_id q = i \<longrightarrow> pt_is_deleted q = Some True)"
    by blast
qed

theorem C2_requireRole_witness:
  "requireRole [''admin''] None =
      Respond (json 401 (Err ''Authentication required''
        ''Please login to access this resource''))
   \<and> requireRole [''admin'']
         (Some \<lparr>ru_id = ''u-nurse'', ru_email = ''nurse@x.com'', ru_role = ''nurse''\<rparr>) =
       Respond (json 403 (Err ''Insufficient permissions''
         ''You do not have permission to access this resource''))
   \<and> requireRole [''admin'']
         (Some \<lparr>ru_id = ''u-admin'', ru_email = ''admin@x.com'', ru_role = ''admin''\<rparr>) =
       Next \<lparr>ru_id = ''u-admin'', ru_email = ''admin@x.com'', ru_role = ''admin''\<rparr>
   \<and> delete_patient_route sample_lib no_faults (Some ''Bearer t-nurse'') ''p-i'' (sample_db 2) =
       (json 403 (Err ''Insufficient permissions''
          ''You do not have permission to access this resource''), sample_db 2)
   \<and> (\<exists>d'. delete_patient_route sample_lib no_faults (Some ''Bearer t-admin'') ''p-i''
                (sample_db 2) =
                (json 200 (Message ''Patient deleted successfully''
                   ''Patient record has been soft deleted''), d')
            \<and> map pt_id (patients d') = [''p-'', ''p-i'']
            \<and> (sample_patient 1)\<lparr>pt_is_deleted := Some True,
                  pt_deleted_at := Some 1700000000000,
                  pt_deleted_by := Some ''u-admin''\<rparr> \<in> set (patients d')
            \<and> (\<forall>q \<in> set (patients d'). pt_id q = ''p-i'' \<longrightarrow> pt_is_deleted q = Some True))"
proof -
  let ?nurse = "\<lparr>ru_id = ''u-nurse'', ru_email = ''nurse@x.com'', ru_role = ''nurse''\<rparr>"
  let ?admin = "\<lparr>ru_id = ''u-admin'', ru_email = ''admin@x.com'', ru_role = ''admin''\<rparr>"
  have n: "authenticateToken (jwt_verify sample_lib) no_faults (sample_db 2)
             (Some ''Bearer t-nurse'') = Next ?nurse \<and> ru_role ?nurse = ''nurse''"
    by (simp add: sample_auth)
  have pts: "patients (sample_db 2) = [sample_patient 0, sample_patient 1]"
    by (simp add: sample_db_def numeral_2_eq_2)
  have a: "authenticateToken (jwt_verify sample_lib) no_faults (sample_db 2)
             (Some ''Bearer t-admin'') = Next ?admin \<and> ru_role ?admin = ''admin''
           \<and> \<not> no_faults PatientDelete
           \<and> sample_patient 1 \<in> set (patients (sample_db 2))
           \<and> pt_id (sample_patient 1) = ''p-i''"
  proof -
    have "\<not> no_faults PatientDelete" by (simp add: no_faults_def)
    moreover have "pt_id (sample_patient 1) = ''p-i''" by (simp add: sample_patient_def)
    ultimately show ?thesis by (simp add: sample_auth pts)
  qed
  have r1: "ru_role ?nurse \<notin> set [''admin'']" and r2: "ru_role ?admin \<in> set [''admin'']"
    by simp_all
  have ids: "map pt_id (patients (sample_db 2)) = [''p-'', ''p-i'']"
    by (simp add: pts) (simp add: sample_patient_def)
  have nw: "now sample_lib = 1700000000000"
    by (simp add: sample_lib_def)
  note inst1 = C2_requireRole [where allowedRoles = "[''admin'']" and u = ?nurse
      and e = sample_lib and flt = no_faults and d = "sample_db 2"
      and authHeader = "Some ''Bearer t-nurse''" and user = ?nurse and i = "''p-i''"
      and p = "sample_patient 1"]
  note inst2 = C2_requireRole [where allowedRoles = "[''admin'']" and u = ?admin
      and e = sample_lib and flt = no_faults and d = "sample_db 2"
      and authHeader = "Some ''Bearer t-admin''" and user = ?admin and i = "''p-i''"
      and p = "sample_patient 1"]
  from inst1 have c1: "requireRole [''admin''] None =
      Respond (json 401 (Err ''Authentication required''
        ''Please login to access this resource''))"
    by blast
  from inst1 r1 have c2: "requireRole [''admin''] (Some ?nurse) =
       Respond (json 403 (Err ''Insufficient permissions''
         ''You do not have permission to access this resource''))"
    by blast
  from inst2 r2 have c3: "requireRole [''admin''] (Some ?admin) = Next ?admin"
    by blast
  from inst1 n have c4: "delete_patient_route sample_lib no_faults (Some ''Bearer t-nurse'')
        ''p-i'' (sample_db 2) =
       (json 403 (Err ''Insufficient permissions''
          ''You do not have permission to access this resource''), sample_db 2)"
    by blast
  from inst2 a have "\<exists>d'. delete_patient_route sample_lib no_faults (Some ''Bearer t-admin'')
                ''p-i'' (sample_db 2) =
                (json 200 (Message ''Patient deleted successfully''
                   ''Patient record has been soft deleted''), d')
            \<and> map pt_id (patients d') = map pt_id (patients (sample_db 2))
            \<and> (sample_patient 1)\<lparr>pt_is_deleted := Some True,
                  pt_deleted_at := Some (now sample_lib),
                  pt_deleted_by := Some (ru_id ?admin)\<rparr> \<in> set (patients d')
            \<and> (\<forall>q \<in> set (patients d'). pt_id q = ''p-i'' \<longrightarrow> pt_is_deleted q = Some True)"
    by blast
  with ids nw have c5: "\<exists>d'. delete_patient_route sample_lib no_faults
                (Some ''Bearer t-admin'') ''p-i'' (sample_db 2) =
                (json 200 (Message ''Patient deleted successfully''
                   ''Patient record has been soft deleted''), d')
            \<and> map pt_id (patients d') = [''p-'', ''p-i'']
            \<and> (sample_patient 1)\<lparr>pt_is_deleted := Some True,
                  pt_deleted_at := Some 1700000000000,
                  pt_deleted_by := Some ''u-admin''\<rparr> \<in> set (patients d')
            \<and> (\<forall>q \<in> set (patients d'). pt_id q = ''p-i'' \<longrightarrow> pt_is_deleted q = Some True)"
    by simp
  from c1 c2 c3 c4 c5 show ?thesis by blast
qed

section \<open>Sign-in\<close>



section \<open>Sign-up\<close>






section \<open>Pagination\<close>




























section \<open>File intake\<close>

lemma default_limits:
  "fileSize default_env = Num 10485760"
  "allowedTypes default_env = [''image/jpeg'', ''image/png'', ''image/jpg'']"
  by (simp_all add: fileSize_def allowedTypes_def default_env_def parseInt_def
        or_default_def or_str_def)

lemma post_xray_next:
  "authenticateToken (jwt_verify e) flt d authHeader = Next user \<Longrightarrow>
   post_xray e env flt authHeader part b d =
     (case upload_single e env part of
        Inl err \<Rightarrow> (Inl err, d)
      | Inr reqfile \<Rightarrow>
          (case upload_xray e flt user reqfile b d of (r, d') \<Rightarrow> (Inr r, d')))"
  by (simp add: post_xray_def)

lemma upload_single_cases:
  "mimetype f \<notin> set (allowedTypes env) \<Longrightarrow>
     upload_single e env (Some f) = Inl (InvalidFileType (allowedTypes env))"
  "mimetype f \<in> set (allowedTypes env) \<Longrightarrow> fileSize env = Num lmt \<Longrightarrow> 1 \<le> lmt \<Longrightarrow>
     lmt \<le> int (file_size f) \<Longrightarrow> upload_single e env (Some f) = Inl LIMIT_FILE_SIZE"
  "mimetype f \<in> set (allowedTypes env) \<Longrightarrow> fileSize env = Num lmt \<Longrightarrow>
     int (file_size f) < lmt \<Longrightarrow> upload_single e env (Some f) = Inr (Some f)"
  by (simp_all add: upload_single_def fileFilter_def limit_met_def)

lemma upload_xray_stored:
  assumes "truthy (xb_patientId b)"
      and "find_live_patient flt XrayPatientLookup d (str (xb_patientId b)) = Some patient"
      and "\<not> flt XrayStorageUpload"
      and "xray_bucket d (xray_filePath e (str (xb_patientId b)) f) = None"
      and "\<not> flt XrayInsert"
      and "uuid_gen e 1 \<notin> set (map xr_id (xray_images d))"
  shows "upload_xray e flt user (Some f) b d =
           (json 201 (ImageBody ''X-ray image uploaded successfully''
              (uploaded_view (xray_record e user (str (xb_patientId b)) f b))
              (Some (patient_ref_of patient))),
            d\<lparr>xray_bucket := (xray_bucket d)(xray_filePath e (str (xb_patientId b)) f \<mapsto>
                                 xray_object user (str (xb_patientId b)) f b),
              xray_images := xray_images d @ [xray_record e user (str (xb_patientId b)) f b]\<rparr>)"
  using assms
  by (simp add: upload_xray_def Let_def storage_upload_def insert_xray_def xray_record_def)

lemma upload_xray_insert_failed:
  assumes "truthy (xb_patientId b)"
      and "find_live_patient flt XrayPatientLookup d (str (xb_patientId b)) = Some patient"
      and "\<not> flt XrayStorageUpload"
      and "xray_bucket d (xray_filePath e (str (xb_patientId b)) f) = None"
      and "flt XrayInsert \<or> uuid_gen e 1 \<in> set (map xr_id (xray_images d))"
  shows "upload_xray e flt user (Some f) b d =
           (json 500 (Err ''Record creation failed''
              ''Failed to create image record in database''),
            storage_remove flt (xray_filePath e (str (xb_patientId b)) f)
              (d\<lparr>xray_bucket := (xray_bucket d)(xray_filePath e (str (xb_patientId b)) f \<mapsto>
                                   xray_object user (str (xb_patientId b)) f b)\<rparr>))"
  using assms
  by (auto simp: upload_xray_def Let_def storage_upload_def insert_xray_def xray_record_def)

lemma sample_live_patient:
  "\<not> flt c \<Longrightarrow> find_live_patient flt c (sample_db (Suc 0)) ''p-'' = Some (sample_patient 0)"
  by (simp add: find_live_patient_def sample_db_def sample_patient_def)

lemma sample_db_empty_tables:
  "xray_bucket (sample_db n) path = None"
  "xray_images (sample_db n) = []"
  "symptoms (sample_db n) = []"
  "symptom_sessions (sample_db n) = []"
  by (simp_all add: sample_db_def)

lemma sample_xray_body_fields:
  "truthy (xb_patientId (sample_xray_body (Some ''p-'')))"
  "str (xb_patientId (sample_xray_body (Some ''p-''))) = ''p-''"
  "\<not> truthy (xb_patientId (sample_xray_body None))"
  by (simp_all add: sample_xray_body_def truthy_def str_def)

lemma sample_filePath:
  "xray_filePath sample_lib ''p-'' (sample_file ''scan.png'' type bytes) = ''p-/xray_p-_new-.png''"
  by (simp add: xray_filePath_def xray_fileName_def sample_lib_def sample_file_def)

text \<open>
  C7. On \<open>POST /upload/xray\<close>, for an authenticated request with a file part:
  a file whose MIME type is not in the configured allow-list (by default \<open>image/jpeg\<close>,
  \<open>image/png\<close>, \<open>image/jpg\<close>) fails with the invalid-file-type error, whatever its size; a
  file of an allowed type whose size reaches or exceeds the configured maximum (a
  positive number of bytes, by default 10 MiB) fails with multer's \<open>LIMIT_FILE_SIZE\<close>
  (payload too large); in both cases the handler does not run and the store is
  untouched. A file of an allowed type that is smaller than the maximum passes the
  intake checks and reaches the handler as it was sent. When the request also names an existing
  patient that is not soft-deleted, the storage upload and the metadata insert succeed
  and the generated key and UUID are free, the response is 201 and exactly one metadata
  row is added, whose \<open>file_path\<close> is the \<open>filePath\<close> of the response and the key of an
  object now present in the bucket.
\<close>

theorem C7_file_intake:
  "fileSize default_env = Num (10 * 1024 * 1024)
   \<and> allowedTypes default_env = [''image/jpeg'', ''image/png'', ''image/jpg'']
   \<and> (authenticateToken (jwt_verify e) flt d authHeader = Next user
        \<and> mimetype f \<notin> set (allowedTypes env) \<longrightarrow>
        post_xray e env flt authHeader (Some f) b d =
          (Inl (InvalidFileType (allowedTypes env)), d))
   \<and> (authenticateToken (jwt_verify e) flt d authHeader = Next user
        \<and> mimetype f \<in> set (allowedTypes env)
        \<and> fileSize env = Num lmt \<and> 1 \<le> lmt \<and> lmt \<le> int (file_size f) \<longrightarrow>
        post_xray e env flt authHeader (Some f) b d = (Inl LIMIT_FILE_SIZE, d))
   \<and> (authenticateToken (jwt_verify e) flt d authHeader = Next user
        \<and> mimetype f \<in> set (allowedTypes env)
        \<and> fileSize env = Num lmt \<and> int (file_size f) < lmt \<longrightarrow>
        upload_single e env (Some f) = Inr (Some f)
        \<and> post_xray e env flt authHeader (Some f) b d =
            (Inr (fst (upload_xray e flt user (Some f) b d)),
             snd (upload_xray e flt user (Some f) b d)))
   \<and> (authenticateToken (jwt_verify e) flt d authHeader = Next user
        \<and> mimetype f \<in> set (allowedTypes env)
        \<and> fileSize env = Num lmt \<and> int (file_size f) < lmt
        \<and> truthy (xb_patientId b)
        \<and> find_live_patient flt XrayPatientLookup d (str (xb_patientId b)) = Some patient
        \<and> \<not> flt XrayStorageUpload
        \<and> xray_bucket d (xray_filePath e (str (xb_patientId b)) f) = None
        \<and> \<not> flt XrayInsert
        \<and> uuid_gen e 1 \<notin> set (map xr_id (xray_images d)) \<longrightarrow>
        (\<exists>row d'.
            post_xray e env flt authHeader (Some f) b d =
              (Inr (json 201 (ImageBody ''X-ray image uploaded successfully''
                      (uploaded_view row) (Some (patient_ref_of patient)))), d')
          \<and> xray_images d' = xray_images d @ [row]
          \<and> xr_file_size row = file_size f \<and> xr_mime_type row = mimetype f
          \<and> iv_filePath (uploaded_view row) = Some (xr_file_path row)
          \<and> xray_bucket d (xr_file_path row) = None
          \<and> xray_bucket d' (xr_file_path row) \<noteq> None))"
proof (intro conjI impI)
  show "fileSize default_env = Num (10 * 1024 * 1024)"
    by (simp add: default_limits)
  show "allowedTypes default_env = [''image/jpeg'', ''image/png'', ''image/jpg'']"
    by (simp add: default_limits)
next
  assume "authenticateToken (jwt_verify e) flt d authHeader = Next user
        \<and> mimetype f \<notin> set (allowedTypes env)"
  then show "post_xray e env flt authHeader (Some f) b d =
          (Inl (InvalidFileType (allowedTypes env)), d)"
    by (simp add: post_xray_next upload_single_cases)
next
  assume "authenticateToken (jwt_verify e) flt d authHeader = Next user
        \<and> mimetype f \<in> set (allowedTypes env)
        \<and> fileSize env = Num lmt \<and> 1 \<le> lmt \<and> lmt \<le> int (file_size f)"
  then show "post_xray e env flt authHeader (Some f) b d = (Inl LIMIT_FILE_SIZE, d)"
    by (simp add: post_xray_next upload_single_cases(2) [where lmt = lmt])
next
  assume a: "authenticateToken (jwt_verify e) flt d authHeader = Next user
        \<and> mimetype f \<in> set (allowedTypes env)
        \<and> fileSize env = Num lmt \<and> int (file_size f) < lmt"
  then have u: "upload_single e env (Some f) = Inr (Some f)"
    by (simp add: upload_single_cases(3) [where lmt = lmt])
  then show "upload_single e env (Some f) = Inr (Some f)" .
  from a u show "post_xray e env flt authHeader (Some f) b d =
            (Inr (fst (upload_xray e flt user (Some f) b d)),
             snd (upload_xray e flt user (Some f) b d))"
    by (simp add: post_xray_next split: prod.splits)
next
  assume a: "authenticateToken (jwt_verify e) flt d authHeader = Next user
        \<and> mimetype f \<in> set (allowedTypes env)
        \<and> fileSize env = Num lmt \<and> int (file_size f) < lmt
        \<and> truthy (xb_patientId b)
        \<and> find_live_patient flt XrayPatientLookup d (str (xb_patientId b)) = Some patient
        \<and> \<not> flt XrayStorageUpload
        \<and> xray_bucket d (xray_filePath e (str (xb_patientId b)) f) = None
        \<and> \<not> flt XrayInsert
        \<and> uuid_gen e 1 \<notin> set (map xr_id (xray_images d))"
  define row where "row = xray_record e user (str (xb_patientId b)) f b"
  define d' where "d' =
    d\<lparr>xray_bucket := (xray_bucket d)(xray_filePath e (str (xb_patientId b)) f \<mapsto>
                         xray_object user (str (xb_patientId b)) f b),
      xray_images := xray_images d @ [row]\<rparr>"
  from a have u: "upload_single e env (Some f) = Inr (Some f)"
    by (simp add: upload_single_cases(3) [where lmt = lmt])
  from a have h: "upload_xray e flt user (Some f) b d =
           (json 201 (ImageBody ''X-ray image uploaded successfully''
              (uploaded_view row) (Some (patient_ref_of patient))), d')"
    using upload_xray_stored [of b flt d patient e f user]
    by (simp add: row_def d'_def)
  from a u h have p: "post_xray e env flt authHeader (Some f) b d =
              (Inr (json 201 (ImageBody ''X-ray image uploaded successfully''
                      (uploaded_view row) (Some (patient_ref_of patient)))), d')"
    by (simp add: post_xray_next)
  have path: "xr_file_path row = xray_filePath e (str (xb_patientId b)) f"
    by (simp add: row_def xray_record_def)
  have r: "xray_images d' = xray_images d @ [row]
          \<and> xr_file_size row = file_size f \<and> xr_mime_type row = mimetype f
          \<and> iv_filePath (uploaded_view row) = Some (xr_file_path row)"
    by (simp add: d'_def row_def xray_record_def uploaded_view_def)
  from a path have free: "xray_bucket d (xr_file_path row) = None" by simp
  from path have there: "xray_bucket d' (xr_file_path row) \<noteq> None"
    by (simp add: d'_def)
  from p r free there
  show "\<exists>row d'.
            post_xray e env flt authHeader (Some f) b d =
              (Inr (json 201 (ImageBody ''X-ray image uploaded successfully''
                      (uploaded_view row) (Some (patient_ref_of patient)))), d')
          \<and> xray_images d' = xray_images d @ [row]
          \<and> xr_file_size row = file_size f \<and> xr_mime_type row = mimetype f
          \<and> iv_filePath (uploaded_view row) = Some (xr_file_path row)
          \<and> xray_bucket d (xr_file_path row) = None
          \<and> xray_bucket d' (xr_file_path row) \<noteq> None"
    by blast
qed

text \<open>
  Without the two restrictions the statement fails: an oversized file of a type that is
  not allowed is refused as an invalid file type, not as too large; and a correctly sized
  PNG sent without a patient id is answered 400 and produces no metadata row.
\<close>

theorem C7_file_intake_counterexample:
  "fileSize default_env = Num 10485760
   \<and> (10485760::int) < int (file_size (sample_file ''scan.pdf'' ''application/pdf'' 15728640))
   \<and> post_xray sample_lib default_env no_faults (Some ''Bearer t-admin'')
        (Some (sample_file ''scan.pdf'' ''application/pdf'' 15728640))
        (sample_xray_body (Some ''p-'')) (sample_db 1) =
       (Inl (InvalidFileType [''image/jpeg'', ''image/png'', ''image/jpg'']), sample_db 1)
   \<and> mimetype (sample_file ''scan.png'' ''image/png'' 1048576) \<in> set (allowedTypes default_env)
   \<and> int (file_size (sample_file ''scan.png'' ''image/png'' 1048576)) < 10485760
   \<and> post_xray sample_lib default_env no_faults (Some ''Bearer t-admin'')
        (Some (sample_file ''scan.png'' ''image/png'' 1048576))
        (sample_xray_body None) (sample_db 1) =
       (Inr (json 400 (Err ''Patient ID required'' ''Please provide a patient ID'')),
        sample_db 1)
   \<and> xray_images (sample_db 1) = []"
  by (simp add: post_xray_next [OF sample_auth(1)] upload_single_def fileFilter_def
        limit_met_def default_limits sample_file_def upload_xray_def sample_xray_body_fields
        sample_db_empty_tables)

theorem C7_file_intake_witness:
  "post_xray sample_lib default_env no_faults (Some ''Bearer t-admin'')
      (Some (sample_file ''scan.pdf'' ''application/pdf'' 1024))
      (sample_xray_body (Some ''p-'')) (sample_db 1) =
     (Inl (InvalidFileType [''image/jpeg'', ''image/png'', ''image/jpg'']), sample_db 1)
   \<and> post_xray sample_lib default_env no_faults (Some ''Bearer t-admin'')
      (Some (sample_file ''scan.png'' ''image/png'' 15728640))
      (sample_xray_body (Some ''p-'')) (sample_db 1) = (Inl LIMIT_FILE_SIZE, sample_db 1)
   \<and> upload_single sample_lib default_env
        (Some (sample_file ''scan.png'' ''image/png'' 1048576)) =
       Inr (Some (sample_file ''scan.png'' ''image/png'' 1048576))
   \<and> (\<exists>row d'.
          post_xray sample_lib default_env no_faults (Some ''Bearer t-admin'')
            (Some (sample_file ''scan.png'' ''image/png'' 1048576))
            (sample_xray_body (Some ''p-'')) (sample_db 1) =
            (Inr (json 201 (ImageBody ''X-ray image uploaded successfully''
                    (uploaded_view row) (Some (patient_ref_of (sample_patient 0))))), d')
        \<and> xray_images d' = [row]
        \<and> xr_file_size row = 1048576 \<and> xr_mime_type row = ''image/png''
        \<and> iv_filePath (uploaded_view row) = Some (xr_file_path row)
        \<and> xray_bucket d' (xr_file_path row) \<noteq> None)"
proof -
  let ?pdf = "sample_file ''scan.pdf'' ''application/pdf'' 1024"
  let ?big = "sample_file ''scan.png'' ''image/png'' 15728640"
  let ?png = "sample_file ''scan.png'' ''image/png'' 1048576"
  let ?b = "sample_xray_body (Some ''p-'')"
  let ?admin = "\<lparr>ru_id = ''u-admin'', ru_email = ''admin@x.com'', ru_role = ''admin''\<rparr>"
  note auth = sample_auth(1) [of 1]
  have t1: "mimetype ?pdf \<notin> set (allowedTypes default_env)"
    by (simp add: default_limits sample_file_def)
  have t2: "mimetype ?big \<in> set (allowedTypes default_env)"
           "fileSize default_env = Num 10485760" "(1::int) \<le> 10485760"
           "10485760 \<le> int (file_size ?big)"
    by (simp_all add: default_limits sample_file_def)
  have t3: "mimetype ?png \<in> set (allowedTypes default_env)"
           "int (file_size ?png) < 10485760"
    by (simp_all add: default_limits sample_file_def)
  have nf: "\<not> no_faults XrayPatientLookup" "\<not> no_faults XrayStorageUpload"
           "\<not> no_faults XrayInsert"
    by (simp_all add: no_faults_def)
  have t4: "truthy (xb_patientId ?b)"
           "find_live_patient no_faults XrayPatientLookup (sample_db 1) (str (xb_patientId ?b))
              = Some (sample_patient 0)"
           "xray_bucket (sample_db 1) (xray_filePath sample_lib (str (xb_patientId ?b)) ?png)
              = None"
           "uuid_gen sample_lib 1 \<notin> set (map xr_id (xray_images (sample_db 1)))"
    by (simp_all add: sample_xray_body_fields sample_live_patient nf sample_db_empty_tables)
  note i1 = C7_file_intake [where e = sample_lib and flt = no_faults and d = "sample_db 1"
      and authHeader = "Some ''Bearer t-admin''" and user = ?admin
      and env = default_env and b = ?b and patient = "sample_patient 0" and f = ?pdf
      and lmt = 10485760]
  note i2 = C7_file_intake [where e = sample_lib and flt = no_faults and d = "sample_db 1"
      and authHeader = "Some ''Bearer t-admin''" and user = ?admin
      and env = default_env and b = ?b and patient = "sample_patient 0" and f = ?big
      and lmt = 10485760]
  note i3 = C7_file_intake [where e = sample_lib and flt = no_faults and d = "sample_db 1"
      and authHeader = "Some ''Bearer t-admin''" and user = ?admin
      and env = default_env and b = ?b and patient = "sample_patient 0" and f = ?png
      and lmt = 10485760]
  from i1 auth t1 have c1: "post_xray sample_lib default_env no_faults (Some ''Bearer t-admin'')
      (Some ?pdf) ?b (sample_db 1) =
     (Inl (InvalidFileType (allowedTypes default_env)), sample_db 1)"
    by blast
  from i2 auth t2 have c2: "post_xray sample_lib default_env no_faults (Some ''Bearer t-admin'')
      (Some ?big) ?b (sample_db 1) = (Inl LIMIT_FILE_SIZE, sample_db 1)"
    by blast
  from i3 auth t2(2) t3 have c3: "upload_single sample_lib default_env (Some ?png) = Inr (Some ?png)"
    by blast
  from i3 auth t2(2) t3 t4 nf have "\<exists>row d'.
          post_xray sample_lib default_env no_faults (Some ''Bearer t-admin'')
            (Some ?png) ?b (sample_db 1) =
            (Inr (json 201 (ImageBody ''X-ray image uploaded successfully''
                    (uploaded_view row) (Some (patient_ref_of (sample_patient 0))))), d')
        \<and> xray_images d' = xray_images (sample_db 1) @ [row]
        \<and> xr_file_size row = file_size ?png \<and> xr_mime_type row = mimetype ?png
        \<and> iv_filePath (uploaded_view row) = Some (xr_file_path row)
        \<and> xray_bucket (sample_db 1) (xr_file_path row) = None
        \<and> xray_bucket d' (xr_file_path row) \<noteq> None"
    by blast
  then have c4: "\<exists>row d'.
          post_xray sample_lib default_env no_faults (Some ''Bearer t-admin'')
            (Some ?png) ?b (sample_db 1) =
            (Inr (json 201 (ImageBody ''X-ray image uploaded successfully''
                    (uploaded_view row) (Some (patient_ref_of (sample_patient 0))))), d')
        \<and> xray_images d' = [row]
        \<and> xr_file_size row = 1048576 \<and> xr_mime_type row = ''image/png''
        \<and> iv_filePath (uploaded_view row) = Some (xr_file_path row)
        \<and> xray_bucket d' (xr_file_path row) \<noteq> None"
    by (simp add: sample_db_empty_tables sample_file_def)
  from c1 have c1': "post_xray sample_lib default_env no_faults (Some ''Bearer t-admin'')
      (Some ?pdf) ?b (sample_db 1) =
     (Inl (InvalidFileType [''image/jpeg'', ''image/png'', ''image/jpg'']), sample_db 1)"
    by (simp add: default_limits)
  from c1' c2 c3 c4 show ?thesis by blast
qed

section \<open>Cleanup after a failed metadata insert\<close>

lemma storage_remove_uploaded:
  "xray_bucket d path = None \<Longrightarrow> \<not> flt XrayStorageRemove \<Longrightarrow>
   storage_remove flt path (d\<lparr>xray_bucket := (xray_bucket d)(path \<mapsto> object)\<rparr>) = d"
  by (simp add: storage_remove_def fun_upd_idem)

lemma storage_remove_failed:
  "flt XrayStorageRemove \<Longrightarrow> storage_remove flt path d = d"
  by (simp add: storage_remove_def)

text \<open>
  C8. When the metadata insert fails after the blob was uploaded, the handler
  answers 500 \<open>Record creation failed\<close>, no metadata row is added, and before answering it
  asks the storage to remove the blob at the generated key without looking at the
  outcome. When that removal succeeds the store is exactly as before the request, so
  neither a row nor a blob is left; when the removal fails too, the blob stays in the
  bucket with no row referring to it.
\<close>

theorem C8_upload_cleanup:
  "truthy (xb_patientId b)
   \<and> find_live_patient flt XrayPatientLookup d (str (xb_patientId b)) = Some patient
   \<and> \<not> flt XrayStorageUpload
   \<and> xray_bucket d (xray_filePath e (str (xb_patientId b)) f) = None
   \<and> (flt XrayInsert \<or> uuid_gen e 1 \<in> set (map xr_id (xray_images d))) \<longrightarrow>
   fst (upload_xray e flt user (Some f) b d) =
     json 500 (Err ''Record creation failed'' ''Failed to create image record in database'')
   \<and> xray_images (snd (upload_xray e flt user (Some f) b d)) = xray_images d
   \<and> (\<not> flt XrayStorageRemove \<longrightarrow> snd (upload_xray e flt user (Some f) b d) = d)
   \<and> (flt XrayStorageRemove \<longrightarrow>
        xray_bucket (snd (upload_xray e flt user (Some f) b d))
          (xray_filePath e (str (xb_patientId b)) f) =
        Some (xray_object user (str (xb_patientId b)) f b))"
proof
  assume a: "truthy (xb_patientId b)
   \<and> find_live_patient flt XrayPatientLookup d (str (xb_patientId b)) = Some patient
   \<and> \<not> flt XrayStorageUpload
   \<and> xray_bucket d (xray_filePath e (str (xb_patientId b)) f) = None
   \<and> (flt XrayInsert \<or> uuid_gen e 1 \<in> set (map xr_id (xray_images d)))"
  let ?path = "xray_filePath e (str (xb_patientId b)) f"
  let ?object = "xray_object user (str (xb_patientId b)) f b"
  let ?d1 = "d\<lparr>xray_bucket := (xray_bucket d)(?path \<mapsto> ?object)\<rparr>"
  from a have r: "upload_xray e flt user (Some f) b d =
           (json 500 (Err ''Record creation failed''
              ''Failed to create image record in database''),
            storage_remove flt ?path ?d1)"
    using upload_xray_insert_failed [of b flt d patient e f user] by blast
  have rows: "xray_images (storage_remove flt ?path ?d1) = xray_images d"
    by (simp add: storage_remove_def)
  have ok: "\<not> flt XrayStorageRemove \<longrightarrow> storage_remove flt ?path ?d1 = d"
    using a by (simp add: storage_remove_uploaded)
  have ko: "flt XrayStorageRemove \<longrightarrow>
              xray_bucket (storage_remove flt ?path ?d1) ?path = Some ?object"
    by (simp add: storage_remove_failed)
  from r rows ok ko
  show "fst (upload_xray e flt user (Some f) b d) =
     json 500 (Err ''Record creation failed'' ''Failed to create image record in database'')
   \<and> xray_images (snd (upload_xray e flt user (Some f) b d)) = xray_images d
   \<and> (\<not> flt XrayStorageRemove \<longrightarrow> snd (upload_xray e flt user (Some f) b d) = d)
   \<and> (flt XrayStorageRemove \<longrightarrow>
        xray_bucket (snd (upload_xray e flt user (Some f) b d)) ?path = Some ?object)"
    by simp
qed

lemma sample_insert_failed:
  assumes "flt XrayInsert" and "\<not> flt XrayPatientLookup" and "\<not> flt XrayStorageUpload"
  shows "upload_xray sample_lib flt sample_admin
           (Some (sample_file ''scan.png'' ''image/png'' 1048576))
           (sample_xray_body (Some ''p-'')) (sample_db 1) =
         (json 500 (Err ''Record creation failed''
            ''Failed to create image record in database''),
          storage_remove flt ''p-/xray_p-_new-.png''
            ((sample_db 1)\<lparr>xray_bucket := (xray_bucket (sample_db 1))
               (''p-/xray_p-_new-.png'' \<mapsto>
                  xray_object sample_admin ''p-''
                    (sample_file ''scan.png'' ''image/png'' 1048576)
                    (sample_xray_body (Some ''p-'')))\<rparr>))"
  using upload_xray_insert_failed [of "sample_xray_body (Some ''p-'')" flt "sample_db 1"
      "sample_patient 0" sample_lib "sample_file ''scan.png'' ''image/png'' 1048576"
      sample_admin] assms
  by (simp add: sample_xray_body_fields sample_live_patient sample_db_empty_tables
        sample_filePath)

text \<open>
  Without the condition on the removal the statement fails: when the removal fails as
  well, the upload is answered 500, no row exists, and the blob is still in the bucket.
\<close>

theorem C8_upload_cleanup_counterexample:
  "fst (upload_xray sample_lib insert_and_remove_fail sample_admin
          (Some (sample_file ''scan.png'' ''image/png'' 1048576))
          (sample_xray_body (Some ''p-'')) (sample_db 1)) =
     json 500 (Err ''Record creation failed'' ''Failed to create image record in database'')
   \<and> xray_images (snd (upload_xray sample_lib insert_and_remove_fail sample_admin
          (Some (sample_file ''scan.png'' ''image/png'' 1048576))
          (sample_xray_body (Some ''p-'')) (sample_db 1))) = []
   \<and> xray_bucket (sample_db 1) ''p-/xray_p-_new-.png'' = None
   \<and> xray_bucket (snd (upload_xray sample_lib insert_and_remove_fail sample_admin
          (Some (sample_file ''scan.png'' ''image/png'' 1048576))
          (sample_xray_body (Some ''p-'')) (sample_db 1))) ''p-/xray_p-_new-.png'' \<noteq> None"
proof -
  have f: "insert_and_remove_fail XrayInsert" "\<not> insert_and_remove_fail XrayPatientLookup"
          "\<not> insert_and_remove_fail XrayStorageUpload"
          "insert_and_remove_fail XrayStorageRemove"
    by (simp_all add: insert_and_remove_fail_def)
  show ?thesis
    unfolding sample_insert_failed [OF f(1,2,3)]
      storage_remove_failed [where flt = insert_and_remove_fail, OF f(4)]
    by (simp add: sample_db_empty_tables)
qed

theorem C8_upload_cleanup_witness:
  "upload_xray sample_lib insert_fails sample_admin
      (Some (sample_file ''scan.png'' ''image/png'' 1048576))
      (sample_xray_body (Some ''p-'')) (sample_db 1) =
     (json 500 (Err ''Record creation failed'' ''Failed to create image record in database''),
      sample_db 1)
   \<and> xray_bucket (snd (upload_xray sample_lib insert_and_remove_fail sample_admin
          (Some (sample_file ''scan.png'' ''image/png'' 1048576))
          (sample_xray_body (Some ''p-'')) (sample_db 1))) ''p-/xray_p-_new-.png'' =
       Some (xray_object sample_admin ''p-'' (sample_file ''scan.png'' ''image/png'' 1048576)
               (sample_xray_body (Some ''p-'')))"
proof -
  let ?png = "sample_file ''scan.png'' ''image/png'' 1048576"
  let ?b = "sample_xray_body (Some ''p-'')"
  have f1: "insert_fails XrayInsert" "\<not> insert_fails XrayPatientLookup"
           "\<not> insert_fails XrayStorageUpload" "\<not> insert_fails XrayStorageRemove"
    by (simp_all add: insert_fails_def)
  have f2: "insert_and_remove_fail XrayInsert" "\<not> insert_and_remove_fail XrayPatientLookup"
           "\<not> insert_and_remove_fail XrayStorageUpload"
           "insert_and_remove_fail XrayStorageRemove"
    by (simp_all add: insert_and_remove_fail_def)
  have h1: "truthy (xb_patientId ?b)
     \<and> find_live_patient insert_fails XrayPatientLookup (sample_db 1) (str (xb_patientId ?b))
         = Some (sample_patient 0)
     \<and> \<not> insert_fails XrayStorageUpload
     \<and> xray_bucket (sample_db 1) (xray_filePath sample_lib (str (xb_patientId ?b)) ?png) = None
     \<and> (insert_fails XrayInsert
          \<or> uuid_gen sample_lib 1 \<in> set (map xr_id (xray_images (sample_db 1))))"
    by (simp add: sample_xray_body_fields sample_live_patient f1 sample_db_empty_tables)
  have h2: "truthy (xb_patientId ?b)
     \<and> find_live_patient insert_and_remove_fail XrayPatientLookup (sample_db 1)
         (str (xb_patientId ?b)) = Some (sample_patient 0)
     \<and> \<not> insert_and_remove_fail XrayStorageUpload
     \<and> xray_bucket (sample_db 1) (xray_filePath sample_lib (str (xb_patientId ?b)) ?png) = None
     \<and> (insert_and_remove_fail XrayInsert
          \<or> uuid_gen sample_lib 1 \<in> set (map xr_id (xray_images (sample_db 1))))"
    by (simp add: sample_xray_body_fields sample_live_patient f2 sample_db_empty_tables)
  note i1 = C8_upload_cleanup [where b = ?b and flt = insert_fails and d = "sample_db 1"
      and patient = "sample_patient 0" and e = sample_lib and f = ?png and user = sample_admin]
  note i2 = C8_upload_cleanup [where b = ?b and flt = insert_and_remove_fail
      and d = "sample_db 1" and patient = "sample_patient 0" and e = sample_lib and f = ?png
      and user = sample_admin]
  from i1 h1 f1 have "fst (upload_xray sample_lib insert_fails sample_admin (Some ?png) ?b
                            (sample_db 1)) =
       json 500 (Err ''Record creation failed'' ''Failed to create image record in database'')
     \<and> snd (upload_xray sample_lib insert_fails sample_admin (Some ?png) ?b (sample_db 1)) =
         sample_db 1"
    by blast
  then have c1: "upload_xray sample_lib insert_fails sample_admin (Some ?png) ?b (sample_db 1) =
     (json 500 (Err ''Record creation failed'' ''Failed to create image record in database''),
      sample_db 1)"
    by (simp add: prod_eq_iff)
  from i2 h2 f2 have "xray_bucket (snd (upload_xray sample_lib insert_and_remove_fail
          sample_admin (Some ?png) ?b (sample_db 1)))
        (xray_filePath sample_lib (str (xb_patientId ?b)) ?png) =
       Some (xray_object sample_admin (str (xb_patientId ?b)) ?png ?b)"
    by blast
  then have c2: "xray_bucket (snd (upload_xray sample_lib insert_and_remove_fail
          sample_admin (Some ?png) ?b (sample_db 1))) ''p-/xray_p-_new-.png'' =
       Some (xray_object sample_admin ''p-'' ?png ?b)"
    by (simp add: sample_xray_body_fields sample_filePath)
  from c1 c2 show ?thesis by simp
qed

section \<open>The acting identity on every write\<close>































section \<open>Soft-deleted patients in the read paths\<close>








end
